theory Spec2Isabelle
  imports Main "HOL-Library.Word" "HOL-Library.Sublist"
begin

unbundle bit_operations_syntax

section \<open>The install command of kubemngr (cmd/install.go)\<close>

text \<open>
  The install command downloads one version of kubectl into the directory
  \<^verbatim>\<open>$HOME/.kubemngr\<close>. The Go code works by side effects on the file system, the
  network and the terminal, and it ends the process at every error
  (\<^verbatim>\<open>log.Fatal\<close>, \<^verbatim>\<open>os.Exit\<close>). The embedding makes both explicit: the function
  takes a \<open>world\<close> and returns the world it leaves behind, and the way the process
  ends is a value of \<open>error + unit\<close>.
\<close>

subsection \<open>The world the command runs in\<close>

text \<open>A Go byte slice and a Go string are both sequences of bytes; a \<open>char\<close> is a byte.\<close>

type_synonym bytes = string

text \<open>A file: its bytes and its permission bits (\<^verbatim>\<open>os.FileMode\<close> is a \<^verbatim>\<open>uint32\<close>).\<close>

record fnode =
  content :: bytes
  mode :: "32 word"

text \<open>
  What \<^verbatim>\<open>unix.Uname\<close> fills in: fixed-size buffers, padded with NUL bytes.
\<close>

record utsname =
  sysname_buf :: bytes
  machine_buf :: bytes

text \<open>The struct \<^verbatim>\<open>uname\<close> of install.go.\<close>

record uname =
  Sysname :: string
  Machine :: string

text \<open>
  An HTTP response as \<^verbatim>\<open>io.Copy\<close> sees it: the chunks that the successive reads of
  the body return, and whether the stream then ends with a read error instead of
  the end of the file. The status code is not part of it: install.go never looks at it.
\<close>

record response =
  body :: "bytes list"
  read_err :: bool

text \<open>The calls whose error install.go checks and that the file system can refuse.\<close>

datatype syscall = SysCreate | SysChmod | SysRename

text \<open>
  Everything the command does that can be seen from outside, in the order in which it
  does it. \<open>Progress t\<close> is one call of \<^verbatim>\<open>PrintProgress\<close> with the counter at \<open>t\<close>
  (the text itself is rendered by the humanize package, which is not modelled);
  \<open>Print s\<close> is a line written with \<^verbatim>\<open>fmt.Println\<close> or \<^verbatim>\<open>fmt.Printf\<close>.
\<close>

datatype event =
    UserHomeDir
  | Stat string
  | Create string
  | Uname
  | HttpGet string
  | Progress "64 word"
  | FileWrite string nat
  | ReadFile string
  | Remove string
  | Chmod string "32 word"
  | Rename string string
  | Print string

record world =
  home_dir :: "string option"
  uname_result :: "string + utsname"
  umask :: "32 word"
  faults :: "syscall set"
  http :: "string \<Rightarrow> response option"
  fs :: "string \<rightharpoonup> fnode"
  trace :: "event list"

text \<open>
  \<open>home_dir\<close> is the answer of \<^verbatim>\<open>os.UserHomeDir\<close> (\<open>None\<close>: an error);
  \<open>uname_result\<close> the answer of \<^verbatim>\<open>unix.Uname\<close> (\<open>Inl\<close>: the text of its error);
  \<open>http url\<close> the answer of \<^verbatim>\<open>http.Get\<close> (\<open>None\<close>: a transport error);
  \<open>faults\<close> the calls that the file system refuses. These four and \<open>umask\<close> are
  read only. \<open>fs\<close> maps a path to the file found there, and \<open>trace\<close> records the
  events so far. Reading and removing a file are modelled on the map alone: install.go
  discards the errors of \<^verbatim>\<open>ioutil.ReadFile\<close> and \<^verbatim>\<open>os.Remove\<close>.
\<close>

definition log_event :: "event \<Rightarrow> world \<Rightarrow> world" where
  "log_event e w = w\<lparr>trace := trace w @ [e]\<rparr>"

subsection \<open>The ways the process ends\<close>

datatype error =
    EmptyVersion
  | HomeDirError
  | AlreadyInstalled string
  | CreateError
  | UnsupportedOS string
  | UnsupportedArch string
  | NetworkError
  | CopyError
  | InvalidBinaryContent
  | ChmodError
  | RenameError

subsection \<open>Library calls\<close>

definition os_UserHomeDir :: "world \<Rightarrow> string option \<times> world" where
  "os_UserHomeDir w = (home_dir w, log_event UserHomeDir w)"

text \<open>\<^verbatim>\<open>os.Stat\<close>: the boolean is \<^verbatim>\<open>err == nil\<close>.\<close>

definition os_Stat :: "string \<Rightarrow> world \<Rightarrow> bool \<times> world" where
  "os_Stat p w = (fs w p \<noteq> None, log_event (Stat p) w)"

text \<open>
  \<^verbatim>\<open>os.Create\<close> opens with \<^verbatim>\<open>O_RDWR|O_CREATE|O_TRUNC\<close> and mode 0666 (octal) before
  the umask: a new file is empty, an existing one is truncated and keeps its mode.
\<close>

definition os_Create :: "string \<Rightarrow> world \<Rightarrow> bool \<times> world" where
  "os_Create p w =
     (if SysCreate \<in> faults w then (False, log_event (Create p) w)
      else (True, log_event (Create p)
              (w\<lparr>fs := (fs w)(p \<mapsto>
                  (case fs w p of
                     None \<Rightarrow> \<lparr>content = [], mode = 438 AND NOT (umask w)\<rparr>
                   | Some f \<Rightarrow> f\<lparr>content := []\<rparr>))\<rparr>)))"

text \<open>\<^verbatim>\<open>out.Write(p)\<close> on the file opened at \<open>path\<close>: the bytes are appended.\<close>

definition file_Write :: "string \<Rightarrow> bytes \<Rightarrow> world \<Rightarrow> world" where
  "file_Write path p w =
     log_event (FileWrite path (length p))
       (case fs w path of
          None \<Rightarrow> w
        | Some f \<Rightarrow> w\<lparr>fs := (fs w)(path \<mapsto> f\<lparr>content := content f @ p\<rparr>)\<rparr>)"

text \<open>\<^verbatim>\<open>ioutil.ReadFile\<close> with its error dropped: a missing file reads as no bytes.\<close>

definition ioutil_ReadFile :: "string \<Rightarrow> world \<Rightarrow> bytes \<times> world" where
  "ioutil_ReadFile p w =
     ((case fs w p of None \<Rightarrow> [] | Some f \<Rightarrow> content f), log_event (ReadFile p) w)"

definition os_Remove :: "string \<Rightarrow> world \<Rightarrow> world" where
  "os_Remove p w = log_event (Remove p) (w\<lparr>fs := (fs w)(p := None)\<rparr>)"

definition os_Chmod :: "string \<Rightarrow> 32 word \<Rightarrow> world \<Rightarrow> bool \<times> world" where
  "os_Chmod p m w =
     (case fs w p of
        None \<Rightarrow> (False, log_event (Chmod p m) w)
      | Some f \<Rightarrow>
          if SysChmod \<in> faults w then (False, log_event (Chmod p m) w)
          else (True, log_event (Chmod p m) (w\<lparr>fs := (fs w)(p \<mapsto> f\<lparr>mode := m\<rparr>)\<rparr>)))"

text \<open>\<^verbatim>\<open>os.Rename\<close>: the file leaves the old path and replaces whatever is at the new one.\<close>

definition os_Rename :: "string \<Rightarrow> string \<Rightarrow> world \<Rightarrow> bool \<times> world" where
  "os_Rename old new w =
     (case fs w old of
        None \<Rightarrow> (False, log_event (Rename old new) w)
      | Some f \<Rightarrow>
          if SysRename \<in> faults w then (False, log_event (Rename old new) w)
          else (True, log_event (Rename old new)
                  (w\<lparr>fs := ((fs w)(old := None))(new \<mapsto> f)\<rparr>)))"

definition http_Get :: "string \<Rightarrow> world \<Rightarrow> response option \<times> world" where
  "http_Get url w = (http w url, log_event (HttpGet url) w)"

text \<open>
  \<^verbatim>\<open>strings.ToLower\<close> on ASCII text: the letters A to Z move to a to z, every other
  byte stays. install.go calls it only after the comparisons with \<^verbatim>\<open>"Linux"\<close>,
  \<^verbatim>\<open>"Darwin"\<close>, \<^verbatim>\<open>"arm"\<close> and \<^verbatim>\<open>"arm64"\<close> have succeeded, so the Unicode branch of
  the Go function is never reached.
\<close>

definition lower_byte :: "char \<Rightarrow> char" where
  "lower_byte c =
     (if 65 \<le> (of_char c :: nat) \<and> (of_char c :: nat) \<le> 90
      then char_of ((of_char c :: nat) + 32) else c)"

definition ToLower :: "string \<Rightarrow> string" where
  "ToLower s = map lower_byte s"

text \<open>\<^verbatim>\<open>bytes.Trim(b, "\x00")\<close>: the NUL bytes at both ends go.\<close>

definition trim_nul :: "bytes \<Rightarrow> bytes" where
  "trim_nul b =
     rev (dropWhile (\<lambda>c. c = CHR 0x00) (rev (dropWhile (\<lambda>c. c = CHR 0x00) b)))"

subsection \<open>WriteCounter\<close>

record WriteCounter =
  Total :: "64 word"

definition PrintProgress :: "WriteCounter \<Rightarrow> world \<Rightarrow> world" where
  "PrintProgress wc w = log_event (Progress (Total wc)) w"

text \<open>
  \<^verbatim>\<open>func (wc *WriteCounter) Write(p []byte) (int, error)\<close>: the counter is a
  \<^verbatim>\<open>uint64\<close>, so the addition wraps; the error is always \<^verbatim>\<open>nil\<close>.
\<close>

definition Write :: "WriteCounter \<Rightarrow> bytes \<Rightarrow> world \<Rightarrow> (nat \<times> WriteCounter) \<times> world" where
  "Write wc p w =
     (let n = length p;
          wc' = wc\<lparr>Total := Total wc + of_nat n\<rparr>
      in ((n, wc'), PrintProgress wc' w))"

text \<open>A sequence of writes through one counter, one call of \<open>Write\<close> after the other.\<close>

fun Writes :: "WriteCounter \<Rightarrow> bytes list \<Rightarrow> world \<Rightarrow> WriteCounter \<times> world" where
  "Writes wc [] w = (wc, w)"
| "Writes wc (p # ps) w = (case Write wc p w of ((n, wc'), w') \<Rightarrow> Writes wc' ps w')"

subsection \<open>getOSInfo\<close>

text \<open>
  When \<^verbatim>\<open>unix.Uname\<close> fails, getOSInfo prints the error and goes on with the zeroed
  buffers, which trim to empty strings.
\<close>

definition getOSInfo :: "world \<Rightarrow> uname \<times> world" where
  "getOSInfo w =
     (case uname_result w of
        Inl err \<Rightarrow>
          (\<lparr>Sysname = [], Machine = []\<rparr>,
           log_event (Print (''Uname: '' @ err)) (log_event Uname w))
      | Inr u \<Rightarrow>
          (\<lparr>Sysname = trim_nul (sysname_buf u), Machine = trim_nul (machine_buf u)\<rparr>,
           log_event Uname w))"

subsection \<open>DownloadKubectl\<close>

text \<open>
  \<^verbatim>\<open>io.Copy(out, io.TeeReader(resp.Body, counter))\<close>: for every read that returns
  bytes, the tee reader first hands them to the counter, then the copy loop writes
  them to the file; a read that returns nothing does neither. The result is
  \<^verbatim>\<open>err == nil\<close>.
\<close>

fun io_Copy :: "string \<Rightarrow> bytes list \<Rightarrow> bool \<Rightarrow> WriteCounter \<Rightarrow> world \<Rightarrow> bool \<times> world" where
  "io_Copy out [] err wc w = (\<not> err, w)"
| "io_Copy out (p # ps) err wc w =
     (if 0 < length p
      then (case Write wc p w of
              ((n, wc'), w') \<Rightarrow> io_Copy out ps err wc' (file_Write out p w'))
      else io_Copy out ps err wc w)"

text \<open>Lines 129 and 130: \<^verbatim>\<open>fmt.Sprintf(url, version, sys, machine)\<close>.\<close>

definition kubectl_url :: "string \<Rightarrow> string \<Rightarrow> string \<Rightarrow> string" where
  "kubectl_url version sys machine =
     ''https://storage.googleapis.com/kubernetes-release/release/'' @ version
       @ ''/bin/'' @ sys @ ''/'' @ machine @ ''/kubectl''"

text \<open>
  Lines 114 to 127: the two comparisons on the names that getOSInfo returned, then
  the names used in the URL.
\<close>

definition resolve_platform :: "uname \<Rightarrow> error + (string \<times> string)" where
  "resolve_platform u =
     (if Sysname u \<noteq> ''Linux'' \<and> Sysname u \<noteq> ''Darwin''
      then Inl (UnsupportedOS (Sysname u))
      else if Machine u \<noteq> ''arm'' \<and> Machine u \<noteq> ''arm64'' \<and> Machine u \<noteq> ''x86_64''
      then Inl (UnsupportedArch (Machine u))
      else Inr (ToLower (Sysname u),
                if Machine u = ''x86_64'' then ''amd64'' else ToLower (Machine u)))"

text \<open>The path that install.go writes five times as
  \<^verbatim>\<open>homeDir + "/.kubemngr/kubectl-" + version\<close>.\<close>

definition store_path :: "string \<Rightarrow> string \<Rightarrow> string" where
  "store_path homeDir version = homeDir @ ''/.kubemngr/kubectl-'' @ version"

text \<open>
  \<open>IsArchive\<close> stands for \<^verbatim>\<open>filetype.IsArchive\<close> of the package h2non/filetype, which
  is not part of this repository: it is a parameter. The mode 0755 (octal) is 493.
\<close>

definition DownloadKubectl ::
  "(bytes \<Rightarrow> bool) \<Rightarrow> string \<Rightarrow> world \<Rightarrow> (error + unit) \<times> world" where
  "DownloadKubectl IsArchive version w0 =
     (if length version = 0 then (Inl EmptyVersion, w0)
      else case os_UserHomeDir w0 of
        (None, w1) \<Rightarrow> (Inl HomeDirError, w1)
      | (Some homeDir, w1) \<Rightarrow>
        (let path = store_path homeDir version in
         case os_Stat path w1 of
           (True, w2) \<Rightarrow> (Inl (AlreadyInstalled version), w2)
         | (False, w2) \<Rightarrow>
           (case os_Create path w2 of
              (False, w3) \<Rightarrow> (Inl CreateError, w3)
            | (True, w3) \<Rightarrow>
              (case getOSInfo w3 of (uname, w4) \<Rightarrow>
               (case resolve_platform uname of
                  Inl e \<Rightarrow> (Inl e, w4)
                | Inr (sys, machine) \<Rightarrow>
                  (case http_Get (kubectl_url version sys machine) w4 of
                     (None, w5) \<Rightarrow> (Inl NetworkError, w5)
                   | (Some resp, w5) \<Rightarrow>
                     (case io_Copy path (body resp) (read_err resp) \<lparr>Total = 0\<rparr> w5 of
                        (False, w6) \<Rightarrow> (Inl CopyError, w6)
                      | (True, w6) \<Rightarrow>
                        (case ioutil_ReadFile path (log_event (Print []) w6) of
                           (buf, w7) \<Rightarrow>
                           if \<not> IsArchive buf
                           then (Inl InvalidBinaryContent,
                                 os_Remove path
                                   (log_event (Print ''failed to download kubectl file. Are you sure you specified the right version?'') w7))
                           else (case os_Chmod path 493 w7 of
                                   (False, w8) \<Rightarrow> (Inl ChmodError, w8)
                                 | (True, w8) \<Rightarrow>
                                   (case os_Rename path path w8 of
                                      (False, w9) \<Rightarrow> (Inl RenameError, w9)
                                    | (True, w9) \<Rightarrow> (Inr (), w9)))))))))))"

subsection \<open>Observations on a run\<close>

text \<open>The events that one call of \<open>DownloadKubectl\<close> adds to the trace.\<close>

definition run_events :: "(bytes \<Rightarrow> bool) \<Rightarrow> string \<Rightarrow> world \<Rightarrow> event list" where
  "run_events IsArchive version w =
     drop (length (trace w)) (trace (snd (DownloadKubectl IsArchive version w)))"

text \<open>What getOSInfo returns on a host, and what it adds to the trace.\<close>

definition host_uname :: "world \<Rightarrow> uname" where
  "host_uname w = fst (getOSInfo w)"

definition uname_events :: "world \<Rightarrow> event list" where
  "uname_events w = drop (length (trace w)) (trace (snd (getOSInfo w)))"

text \<open>The URLs requested, in order.\<close>

fun requested_urls :: "event list \<Rightarrow> string list" where
  "requested_urls [] = []"
| "requested_urls (HttpGet url # es) = url # requested_urls es"
| "requested_urls (e # es) = requested_urls es"

text \<open>The totals that \<open>PrintProgress\<close> reported, in order.\<close>

fun reported :: "event list \<Rightarrow> 64 word list" where
  "reported [] = []"
| "reported (Progress t # es) = t # reported es"
| "reported (e # es) = reported es"

text \<open>
  The steps of the pipeline. Looking the home directory up, creating the destination
  file and printing belong to no step here.
\<close>

datatype phase = Checking | Detecting | Downloading | Verifying | Finalizing

fun phase_of :: "event \<Rightarrow> phase option" where
  "phase_of (Stat p) = Some Checking"
| "phase_of Uname = Some Detecting"
| "phase_of (HttpGet url) = Some Downloading"
| "phase_of (Progress t) = Some Downloading"
| "phase_of (FileWrite p n) = Some Downloading"
| "phase_of (ReadFile p) = Some Verifying"
| "phase_of (Remove p) = Some Verifying"
| "phase_of (Chmod p m) = Some Finalizing"
| "phase_of (Rename old new) = Some Finalizing"
| "phase_of UserHomeDir = None"
| "phase_of (Create p) = None"
| "phase_of (Print s) = None"

fun phases :: "event list \<Rightarrow> phase list" where
  "phases [] = []"
| "phases (e # es) = (case phase_of e of None \<Rightarrow> phases es | Some p \<Rightarrow> p # phases es)"

text \<open>The order of the steps in install.go, and the order that the specification gives.\<close>

definition code_order :: "phase list" where
  "code_order = [Checking, Detecting, Downloading, Verifying, Finalizing]"

definition spec_order :: "phase list" where
  "spec_order = [Detecting, Checking, Downloading, Verifying, Finalizing]"

text \<open>What the copy loop adds to the trace, and what it does to the file.\<close>

fun copy_events :: "string \<Rightarrow> 64 word \<Rightarrow> bytes list \<Rightarrow> event list" where
  "copy_events out t [] = []"
| "copy_events out t (p # ps) =
     (if 0 < length p
      then Progress (t + of_nat (length p)) # FileWrite out (length p)
             # copy_events out (t + of_nat (length p)) ps
      else copy_events out t ps)"

definition appended :: "string \<Rightarrow> bytes \<Rightarrow> (string \<rightharpoonup> fnode) \<Rightarrow> (string \<rightharpoonup> fnode)" where
  "appended out bs m =
     (case m out of None \<Rightarrow> m | Some f \<Rightarrow> m(out \<mapsto> f\<lparr>content := content f @ bs\<rparr>))"

subsection \<open>Concrete hosts\<close>

text \<open>
  An instance of the parameter \<open>IsArchive\<close> for the concrete runs below: it accepts
  the magic number of an ELF executable (the comment at the call of
  \<^verbatim>\<open>filetype.IsArchive\<close> reads \<^verbatim>\<open>elf - application/x-executable check\<close>) and
  nothing else.
\<close>

definition Elf_only :: "bytes \<Rightarrow> bool" where
  "Elf_only buf = (take 4 buf = [CHR 0x7F, CHR ''E'', CHR ''L'', CHR ''F''])"

text \<open>
  A machine with home directory \<^verbatim>\<open>/home/dev\<close>, umask 022 (octal), nothing installed,
  no failing call, and the given answers of uname and of the network.
\<close>

definition host :: "bytes \<Rightarrow> bytes \<Rightarrow> (string \<Rightarrow> response option) \<Rightarrow> world" where
  "host sysname machine net =
     \<lparr>home_dir = Some ''/home/dev'',
      uname_result = Inr \<lparr>sysname_buf = sysname @ [CHR 0x00, CHR 0x00],
                          machine_buf = machine @ [CHR 0x00]\<rparr>,
      umask = 18, faults = {}, http = net, fs = Map.empty, trace = []\<rparr>"

text \<open>A network that answers one URL and fails on every other.\<close>

definition serve :: "string \<Rightarrow> response \<Rightarrow> string \<Rightarrow> response option" where
  "serve url r = (\<lambda>u. if u = url then Some r else None)"

definition release_url :: string where
  "release_url =
     ''https://storage.googleapis.com/kubernetes-release/release/1.18.0/bin/linux/amd64/kubectl''"

definition elf_response :: response where
  "elf_response = \<lparr>body = [[CHR 0x7F, CHR ''E'', CHR ''L''], [], ''F...''], read_err = False\<rparr>"

definition html_response :: response where
  "html_response = \<lparr>body = [''<html>'', ''404</html>''], read_err = False\<rparr>"

definition broken_response :: response where
  "broken_response = \<lparr>body = [[CHR 0x7F, CHR ''E'', CHR ''L'']], read_err = True\<rparr>"

text \<open>The same machine with version 1.18.0 installed.\<close>

definition installed_host :: "bytes \<Rightarrow> world" where
  "installed_host sysname =
     (host sysname ''x86_64'' (serve release_url elf_response))
       \<lparr>fs := [''/home/dev/.kubemngr/kubectl-1.18.0'' \<mapsto> \<lparr>content = ''old'', mode = 493\<rparr>]\<rparr>"

text \<open>
  The totals that a counter starting at \<open>t\<close> reaches after each write of a sequence.
\<close>

fun running_totals :: "64 word \<Rightarrow> bytes list \<Rightarrow> 64 word list" where
  "running_totals t [] = []"
| "running_totals t (p # ps) = (t + of_nat (length p)) # running_totals (t + of_nat (length p)) ps"

text \<open>
  A run keeps to an order of the steps when the steps it performs, each taken once,
  are an initial part of that order: a run that stops early has performed the first
  steps of the order and no other.
\<close>

definition in_order :: "phase list \<Rightarrow> event list \<Rightarrow> bool" where
  "in_order order evs = prefix (remdups_adj (phases evs)) order"

text \<open>The line that install.go prints when the verifier rejects the download (line 149).\<close>

definition failure_line :: string where
  "failure_line =
     ''failed to download kubectl file. Are you sure you specified the right version?''"

text \<open>
  \<open>precedes a b evs\<close>: the event \<open>a\<close> occurs in \<open>evs\<close>, no \<open>b\<close> occurs before its first
  occurrence, and a \<open>b\<close> occurs after it.
\<close>

fun precedes :: "event \<Rightarrow> event \<Rightarrow> event list \<Rightarrow> bool" where
  "precedes a b [] = False"
| "precedes a b (e # es) =
     (if e = a then b \<in> set es else if e = b then False else precedes a b es)"

section \<open>Properties\<close>

subsection \<open>Auxiliary facts\<close>

lemmas lib_defs =
  os_UserHomeDir_def os_Stat_def os_Create_def ioutil_ReadFile_def os_Remove_def
  os_Chmod_def os_Rename_def http_Get_def getOSInfo_def log_event_def

lemma ToLower_names:
  "ToLower ''Linux'' = ''linux''" "ToLower ''Darwin'' = ''darwin''"
  "ToLower ''arm'' = ''arm''" "ToLower ''arm64'' = ''arm64''"
  by (simp_all add: ToLower_def lower_byte_def char_of_eq_iff)

lemmas eval_defs =
  store_path_def kubectl_url_def resolve_platform_def ToLower_names
  trim_nul_def host_def serve_def release_url_def Elf_only_def
  elf_response_def html_response_def broken_response_def installed_host_def

lemma appended_twice: "appended out bs' (appended out bs m) = appended out (bs @ bs') m"
  by (simp add: appended_def split: option.splits)

lemma appended_Nil: "appended out [] m = m"
  by (auto simp add: appended_def split: option.splits)

lemma file_Write_eq:
  "file_Write out p w =
     w\<lparr>fs := appended out p (fs w), trace := trace w @ [FileWrite out (length p)]\<rparr>"
  by (simp add: file_Write_def log_event_def appended_def split: option.splits)

lemma io_Copy_eq:
  "io_Copy out ps err wc w =
     (\<not> err, w\<lparr>fs := appended out (concat ps) (fs w),
                 trace := trace w @ copy_events out (Total wc) ps\<rparr>)"
proof (induction ps arbitrary: wc w)
  case Nil
  then show ?case by (simp add: appended_Nil)
next
  case (Cons p ps)
  show ?case
  proof (cases "0 < length p")
    case True
    then show ?thesis
      by (simp add: Cons.IH Write_def PrintProgress_def log_event_def file_Write_eq
          appended_twice Let_def)
  next
    case False
    then show ?thesis by (simp add: Cons.IH)
  qed
qed

lemma getOSInfo_eq:
  "getOSInfo w = (host_uname w, w\<lparr>trace := trace w @ uname_events w\<rparr>)"
  by (simp add: host_uname_def uname_events_def getOSInfo_def log_event_def
      split: sum.splits)

lemma host_uname_upd [simp]: "host_uname (w\<lparr>fs := a, trace := b\<rparr>) = host_uname w"
  by (simp add: host_uname_def getOSInfo_def split: sum.splits)

lemma uname_events_upd [simp]: "uname_events (w\<lparr>fs := a, trace := b\<rparr>) = uname_events w"
  by (simp add: uname_events_def getOSInfo_def log_event_def split: sum.splits)

lemma uname_events_cases:
  "uname_events w = [Uname] \<or> (\<exists>s. uname_events w = [Uname, Print s])"
  by (simp add: uname_events_def getOSInfo_def log_event_def split: sum.splits)

lemma requested_urls_append:
  "requested_urls (xs @ ys) = requested_urls xs @ requested_urls ys"
  by (induction xs rule: requested_urls.induct) simp_all

lemma requested_urls_copy_events: "requested_urls (copy_events out t ps) = []"
  by (induction ps arbitrary: t) simp_all

lemma phases_append: "phases (xs @ ys) = phases xs @ phases ys"
  by (induction xs) (simp_all split: option.splits)

lemma phases_copy_events:
  "phases (copy_events out t ps) = replicate (length (copy_events out t ps)) Downloading"
  by (induction ps arbitrary: t) simp_all

lemma remdups_adj_replicate_same:
  "remdups_adj (a # replicate k a @ xs) = remdups_adj (a # xs)"
  by (induction k) simp_all

lemmas run_defs =
  DownloadKubectl_def lib_defs(1-8,10) getOSInfo_eq io_Copy_eq Let_def appended_def

lemma phases_uname_events [simp]: "phases (uname_events w) = [Detecting]"
  using uname_events_cases [of w] by auto

lemma requested_urls_uname_events [simp]: "requested_urls (uname_events w) = []"
  using uname_events_cases [of w] by auto

lemma Remove_notin_uname_events [simp]: "Remove p \<notin> set (uname_events w)"
  using uname_events_cases [of w] by auto

lemma hd_uname_events: "\<exists>rest. uname_events w = Uname # rest"
  using uname_events_cases [of w] by auto

lemma remdups_adj_replicate_only: "remdups_adj (a # replicate k a) = [a]"
  by (induction k) simp_all

text \<open>What \<open>DownloadKubectl\<close> returns, one lemma for each way it can end.\<close>

lemma DK_empty: "DownloadKubectl I [] w = (Inl EmptyVersion, w)"
  by (simp add: DownloadKubectl_def)

lemma DK_no_home:
  assumes "version \<noteq> []" "home_dir w = None"
  shows "DownloadKubectl I version w = (Inl HomeDirError, w\<lparr>trace := trace w @ [UserHomeDir]\<rparr>)"
  using assms by (simp add: run_defs)

lemma DK_installed:
  assumes "version \<noteq> []" "home_dir w = Some h" "fs w (store_path h version) = Some f"
  shows "DownloadKubectl I version w =
    (Inl (AlreadyInstalled version), w\<lparr>trace := trace w @ [UserHomeDir, Stat (store_path h version)]\<rparr>)"
  using assms by (simp add: run_defs)

lemma DK_create_fails:
  assumes "version \<noteq> []" "home_dir w = Some h" "fs w (store_path h version) = None"
    "SysCreate \<in> faults w"
  shows "DownloadKubectl I version w =
    (Inl CreateError, w\<lparr>trace := trace w @ [UserHomeDir, Stat (store_path h version), Create (store_path h version)]\<rparr>)"
  using assms by (simp add: run_defs)

lemma DK_unsupported:
  assumes "version \<noteq> []" "home_dir w = Some h" "fs w (store_path h version) = None"
    "SysCreate \<notin> faults w" "resolve_platform (host_uname w) = Inl e"
  shows "DownloadKubectl I version w =
    (Inl e, w\<lparr>fs := (fs w)(store_path h version \<mapsto> \<lparr>content = [], mode = 438 AND NOT (umask w)\<rparr>),
              trace := trace w @ [UserHomeDir, Stat (store_path h version), Create (store_path h version)]
                  @ uname_events w\<rparr>)"
  using assms by (simp add: run_defs)

lemma DK_network:
  assumes "version \<noteq> []" "home_dir w = Some h" "fs w (store_path h version) = None"
    "SysCreate \<notin> faults w" "resolve_platform (host_uname w) = Inr (sys, arch)"
    "http w (kubectl_url version sys arch) = None"
  shows "DownloadKubectl I version w =
    (Inl NetworkError, w\<lparr>fs := (fs w)(store_path h version \<mapsto> \<lparr>content = [], mode = 438 AND NOT (umask w)\<rparr>),
              trace := trace w @ [UserHomeDir, Stat (store_path h version), Create (store_path h version)]
                  @ uname_events w @ [HttpGet (kubectl_url version sys arch)]\<rparr>)"
  using assms by (simp add: run_defs)

lemma DK_copy_fails:
  assumes "version \<noteq> []" "home_dir w = Some h" "fs w (store_path h version) = None"
    "SysCreate \<notin> faults w" "resolve_platform (host_uname w) = Inr (sys, arch)"
    "http w (kubectl_url version sys arch) = Some resp" "read_err resp"
  shows "DownloadKubectl I version w =
    (Inl CopyError, w\<lparr>fs := (fs w)(store_path h version \<mapsto> \<lparr>content = concat (body resp), mode = 438 AND NOT (umask w)\<rparr>),
              trace := trace w @ [UserHomeDir, Stat (store_path h version), Create (store_path h version)]
                  @ uname_events w @ [HttpGet (kubectl_url version sys arch)]
                  @ copy_events (store_path h version) 0 (body resp)\<rparr>)"
  using assms by (simp add: run_defs)

lemma DK_rejected:
  assumes "version \<noteq> []" "home_dir w = Some h" "fs w (store_path h version) = None"
    "SysCreate \<notin> faults w" "resolve_platform (host_uname w) = Inr (sys, arch)"
    "http w (kubectl_url version sys arch) = Some resp" "\<not> read_err resp"
    "\<not> I (concat (body resp))"
  shows "DownloadKubectl I version w =
    (Inl InvalidBinaryContent, w\<lparr>fs := (fs w)(store_path h version := None),
              trace := trace w @ [UserHomeDir, Stat (store_path h version), Create (store_path h version)]
                  @ uname_events w @ [HttpGet (kubectl_url version sys arch)]
                  @ copy_events (store_path h version) 0 (body resp)
                  @ [Print [], ReadFile (store_path h version),
                     Print ''failed to download kubectl file. Are you sure you specified the right version?'',
                     Remove (store_path h version)]\<rparr>)"
  using assms by (simp add: run_defs)

lemma DK_chmod_fails:
  assumes "version \<noteq> []" "home_dir w = Some h" "fs w (store_path h version) = None"
    "SysCreate \<notin> faults w" "resolve_platform (host_uname w) = Inr (sys, arch)"
    "http w (kubectl_url version sys arch) = Some resp" "\<not> read_err resp"
    "I (concat (body resp))" "SysChmod \<in> faults w"
  shows "DownloadKubectl I version w =
    (Inl ChmodError, w\<lparr>fs := (fs w)(store_path h version \<mapsto> \<lparr>content = concat (body resp), mode = 438 AND NOT (umask w)\<rparr>),
              trace := trace w @ [UserHomeDir, Stat (store_path h version), Create (store_path h version)]
                  @ uname_events w @ [HttpGet (kubectl_url version sys arch)]
                  @ copy_events (store_path h version) 0 (body resp)
                  @ [Print [], ReadFile (store_path h version), Chmod (store_path h version) 493]\<rparr>)"
  using assms by (simp add: run_defs)

lemma DK_rename_fails:
  assumes "version \<noteq> []" "home_dir w = Some h" "fs w (store_path h version) = None"
    "SysCreate \<notin> faults w" "resolve_platform (host_uname w) = Inr (sys, arch)"
    "http w (kubectl_url version sys arch) = Some resp" "\<not> read_err resp"
    "I (concat (body resp))" "SysChmod \<notin> faults w" "SysRename \<in> faults w"
  shows "DownloadKubectl I version w =
    (Inl RenameError, w\<lparr>fs := (fs w)(store_path h version \<mapsto> \<lparr>content = concat (body resp), mode = 493\<rparr>),
              trace := trace w @ [UserHomeDir, Stat (store_path h version), Create (store_path h version)]
                  @ uname_events w @ [HttpGet (kubectl_url version sys arch)]
                  @ copy_events (store_path h version) 0 (body resp)
                  @ [Print [], ReadFile (store_path h version), Chmod (store_path h version) 493,
                     Rename (store_path h version) (store_path h version)]\<rparr>)"
  using assms by (simp add: run_defs)

lemma DK_success:
  assumes "version \<noteq> []" "home_dir w = Some h" "fs w (store_path h version) = None"
    "SysCreate \<notin> faults w" "resolve_platform (host_uname w) = Inr (sys, arch)"
    "http w (kubectl_url version sys arch) = Some resp" "\<not> read_err resp"
    "I (concat (body resp))" "SysChmod \<notin> faults w" "SysRename \<notin> faults w"
  shows "DownloadKubectl I version w =
    (Inr (), w\<lparr>fs := (fs w)(store_path h version \<mapsto> \<lparr>content = concat (body resp), mode = 493\<rparr>),
              trace := trace w @ [UserHomeDir, Stat (store_path h version), Create (store_path h version)]
                  @ uname_events w @ [HttpGet (kubectl_url version sys arch)]
                  @ copy_events (store_path h version) 0 (body resp)
                  @ [Print [], ReadFile (store_path h version), Chmod (store_path h version) 493,
                     Rename (store_path h version) (store_path h version)]\<rparr>)"
  using assms by (simp add: run_defs)


text \<open>Every run ends in one of these eleven ways.\<close>

lemma DK_cases [case_names empty no_home installed create_fails unsupported network
    copy_fails rejected chmod_fails rename_fails success]:
  assumes empty: "version = [] \<Longrightarrow> P"
    and no_home: "\<lbrakk>version \<noteq> []; home_dir w = None\<rbrakk> \<Longrightarrow> P"
    and installed: "\<And>h f. \<lbrakk>version \<noteq> []; home_dir w = Some h;
          fs w (store_path h version) = Some f\<rbrakk> \<Longrightarrow> P"
    and create_fails: "\<And>h. \<lbrakk>version \<noteq> []; home_dir w = Some h;
          fs w (store_path h version) = None; SysCreate \<in> faults w\<rbrakk> \<Longrightarrow> P"
    and unsupported: "\<And>h e. \<lbrakk>version \<noteq> []; home_dir w = Some h;
          fs w (store_path h version) = None; SysCreate \<notin> faults w;
          resolve_platform (host_uname w) = Inl e\<rbrakk> \<Longrightarrow> P"
    and network: "\<And>h sys arch. \<lbrakk>version \<noteq> []; home_dir w = Some h;
          fs w (store_path h version) = None; SysCreate \<notin> faults w;
          resolve_platform (host_uname w) = Inr (sys, arch);
          http w (kubectl_url version sys arch) = None\<rbrakk> \<Longrightarrow> P"
    and copy_fails: "\<And>h sys arch resp. \<lbrakk>version \<noteq> []; home_dir w = Some h;
          fs w (store_path h version) = None; SysCreate \<notin> faults w;
          resolve_platform (host_uname w) = Inr (sys, arch);
          http w (kubectl_url version sys arch) = Some resp; read_err resp\<rbrakk> \<Longrightarrow> P"
    and rejected: "\<And>h sys arch resp. \<lbrakk>version \<noteq> []; home_dir w = Some h;
          fs w (store_path h version) = None; SysCreate \<notin> faults w;
          resolve_platform (host_uname w) = Inr (sys, arch);
          http w (kubectl_url version sys arch) = Some resp; \<not> read_err resp;
          \<not> I (concat (body resp))\<rbrakk> \<Longrightarrow> P"
    and chmod_fails: "\<And>h sys arch resp. \<lbrakk>version \<noteq> []; home_dir w = Some h;
          fs w (store_path h version) = None; SysCreate \<notin> faults w;
          resolve_platform (host_uname w) = Inr (sys, arch);
          http w (kubectl_url version sys arch) = Some resp; \<not> read_err resp;
          I (concat (body resp)); SysChmod \<in> faults w\<rbrakk> \<Longrightarrow> P"
    and rename_fails: "\<And>h sys arch resp. \<lbrakk>version \<noteq> []; home_dir w = Some h;
          fs w (store_path h version) = None; SysCreate \<notin> faults w;
          resolve_platform (host_uname w) = Inr (sys, arch);
          http w (kubectl_url version sys arch) = Some resp; \<not> read_err resp;
          I (concat (body resp)); SysChmod \<notin> faults w; SysRename \<in> faults w\<rbrakk> \<Longrightarrow> P"
    and success: "\<And>h sys arch resp. \<lbrakk>version \<noteq> []; home_dir w = Some h;
          fs w (store_path h version) = None; SysCreate \<notin> faults w;
          resolve_platform (host_uname w) = Inr (sys, arch);
          http w (kubectl_url version sys arch) = Some resp; \<not> read_err resp;
          I (concat (body resp)); SysChmod \<notin> faults w; SysRename \<notin> faults w\<rbrakk> \<Longrightarrow> P"
  shows P
proof (cases "version = []")
  case True
  then show P by (rule empty)
next
  case v: False
  show P
  proof (cases "home_dir w")
    case None
    with v show P by (rule no_home)
  next
    case h: (Some h)
    show P
    proof (cases "fs w (store_path h version)")
      case (Some f)
      with v h show P by (rule installed)
    next
      case absent: None
      show P
      proof (cases "SysCreate \<in> faults w")
        case True
        with v h absent show P by (rule create_fails)
      next
        case created: False
        show P
        proof (cases "resolve_platform (host_uname w)")
          case (Inl e)
          with v h absent created show P by (rule unsupported)
        next
          case (Inr pr)
          then obtain sys arch where plat: "resolve_platform (host_uname w) = Inr (sys, arch)"
            by (cases pr) simp
          show P
          proof (cases "http w (kubectl_url version sys arch)")
            case None
            with v h absent created plat show P by (rule network)
          next
            case resp: (Some resp)
            show P
            proof (cases "read_err resp")
              case True
              with v h absent created plat resp show P by (rule copy_fails)
            next
              case eof: False
              show P
              proof (cases "I (concat (body resp))")
                case False
                with v h absent created plat resp eof show P by (rule rejected)
              next
                case accepted: True
                show P
                proof (cases "SysChmod \<in> faults w")
                  case True
                  with v h absent created plat resp eof accepted show P
                    by (rule chmod_fails)
                next
                  case chmod: False
                  show P
                  proof (cases "SysRename \<in> faults w")
                    case True
                    with v h absent created plat resp eof accepted chmod show P
                      by (rule rename_fails)
                  next
                    case False
                    with v h absent created plat resp eof accepted chmod show P
                      by (rule success)
                  qed
                qed
              qed
            qed
          qed
        qed
      qed
    qed
  qed
qed

lemmas concrete_defs =
  DownloadKubectl_def lib_defs io_Copy_eq Let_def appended_def eval_defs

lemma host_uname_host:
  "host_uname (host ''Linux'' ''x86_64'' net) = \<lparr>Sysname = ''Linux'', Machine = ''x86_64''\<rparr>"
  "host_uname (host ''Windows'' ''x86_64'' net) = \<lparr>Sysname = ''Windows'', Machine = ''x86_64''\<rparr>"
  by (simp_all add: host_uname_def getOSInfo_def eval_defs)

lemma run_events_reaching_download:
  assumes "version \<noteq> []" "home_dir w = Some h" "fs w (store_path h version) = None"
    "SysCreate \<notin> faults w" "resolve_platform (host_uname w) = Inr (sys, arch)"
  shows "\<exists>rest. run_events I version w =
      [UserHomeDir, Stat (store_path h version), Create (store_path h version)]
        @ uname_events w @ [HttpGet (kubectl_url version sys arch)] @ rest
      \<and> requested_urls rest = []"
proof (cases rule: DK_cases [where version = version and w = w and I = I])
  case (network h' sys' arch')
  with assms show ?thesis by (simp add: run_events_def DK_network)
next
  case (copy_fails h' sys' arch' resp)
  with assms show ?thesis
    by (simp add: run_events_def DK_copy_fails requested_urls_copy_events)
next
  case (rejected h' sys' arch' resp)
  with assms show ?thesis
    by (simp add: run_events_def DK_rejected requested_urls_append requested_urls_copy_events)
next
  case (chmod_fails h' sys' arch' resp)
  with assms show ?thesis
    by (simp add: run_events_def DK_chmod_fails requested_urls_append requested_urls_copy_events)
next
  case (rename_fails h' sys' arch' resp)
  with assms show ?thesis
    by (simp add: run_events_def DK_rename_fails requested_urls_append requested_urls_copy_events)
next
  case (success h' sys' arch' resp)
  with assms show ?thesis
    by (simp add: run_events_def DK_success requested_urls_append requested_urls_copy_events)
qed (use assms in simp_all)

lemma no_request_without_platform:
  assumes "resolve_platform (host_uname w) = Inl e"
  shows "requested_urls (run_events IsArchive version w) = []
    \<and> fst (DownloadKubectl IsArchive version w) \<noteq> Inr ()"
proof (cases rule: DK_cases [where version = version and w = w and I = IsArchive])
  case empty
  then show ?thesis by (simp add: run_events_def DK_empty)
next
  case no_home
  then show ?thesis by (simp add: run_events_def DK_no_home)
next
  case (installed h f)
  then show ?thesis by (simp add: run_events_def DK_installed)
next
  case (create_fails h)
  then show ?thesis by (simp add: run_events_def DK_create_fails)
next
  case (unsupported h e)
  then show ?thesis by (simp add: run_events_def DK_unsupported requested_urls_append)
qed (use assms in simp_all)


text \<open>The counter after a sequence of writes.\<close>

lemma Writes_eq:
  "Writes wc ps w =
     (wc\<lparr>Total := Total wc + of_nat (sum_list (map length ps))\<rparr>,
      w\<lparr>trace := trace w @ map Progress (running_totals (Total wc) ps)\<rparr>)"
  by (induction ps arbitrary: wc w)
     (simp_all add: Write_def PrintProgress_def log_event_def Let_def add.assoc)

lemma reported_map_Progress [simp]: "reported (map Progress ts) = ts"
  by (induction ts) simp_all

lemma length_running_totals [simp]: "length (running_totals t ps) = length ps"
  by (induction ps arbitrary: t) simp_all

lemma running_totals_nth:
  "i < length ps \<Longrightarrow>
     running_totals t ps ! i = t + of_nat (sum_list (map length (take (Suc i) ps)))"
proof (induction ps arbitrary: t i)
  case Nil
  then show ?case by simp
next
  case (Cons p ps)
  show ?case
  proof (cases i)
    case 0
    then show ?thesis by simp
  next
    case (Suc j)
    with Cons.prems have "j < length ps" by simp
    from Cons.IH [OF this] Suc show ?thesis by (simp add: add.assoc)
  qed
qed

lemma sum_take_le: "sum_list (map length (take i ps)) \<le> sum_list (map length (ps :: bytes list))"
proof -
  have "sum_list (map length ps) = sum_list (map length (take i ps)) + sum_list (map length (drop i ps))"
    by (metis append_take_drop_id map_append sum_list_append)
  then show ?thesis by simp
qed

lemma sum_take_mono:
  "i \<le> j \<Longrightarrow> sum_list (map length (take i ps)) \<le> sum_list (map length (take j (ps :: bytes list)))"
proof -
  assume "i \<le> j"
  then have "take i ps = take i (take j ps)" by (simp add: min_def)
  then show ?thesis using sum_take_le [of i "take j ps"] by simp
qed

text \<open>The order of two events in a run, and the run that ends with a rejected download.\<close>

lemma precedes_append:
  "a \<notin> set xs \<Longrightarrow> b \<notin> set xs \<Longrightarrow> precedes a b (xs @ ys) = precedes a b ys"
  by (induction xs) auto

lemma Remove_notin_copy_events: "Remove p \<notin> set (copy_events out t ps)"
  by (induction ps arbitrary: t) simp_all

lemma Print_notin_copy_events: "Print s \<notin> set (copy_events out t ps)"
  by (induction ps arbitrary: t) simp_all

lemma failure_line_notin_uname_events: "Print failure_line \<notin> set (uname_events w)"
  by (simp add: uname_events_def getOSInfo_def log_event_def failure_line_def
      split: sum.splits)

lemma failure_line_ne [simp]: "failure_line \<noteq> []" "[] \<noteq> failure_line"
  by (simp_all add: failure_line_def)

lemma run_events_rejected:
  assumes "version \<noteq> []" "home_dir w = Some h" "fs w (store_path h version) = None"
    "SysCreate \<notin> faults w" "resolve_platform (host_uname w) = Inr (sys, arch)"
    "http w (kubectl_url version sys arch) = Some resp" "\<not> read_err resp"
    "\<not> I (concat (body resp))"
  shows "run_events I version w =
      ([UserHomeDir, Stat (store_path h version), Create (store_path h version)]
        @ uname_events w @ [HttpGet (kubectl_url version sys arch)]
        @ copy_events (store_path h version) 0 (body resp)
        @ [Print [], ReadFile (store_path h version)])
      @ [Print failure_line, Remove (store_path h version)]"
  by (simp add: run_events_def DK_rejected [where I = I, OF assms] failure_line_def)

section \<open>The claims\<close>

subsection \<open>C1: what can be seen at the final path\<close>

text \<open>
  C1 asks that content is visible at the final store path only when download and
  verification have both succeeded, and never while an attempt is still downloading,
  unverified or failed. The comments of install.go say the same (a temporary file
  that is checked \<open>before moving the contents over to the user's home dir\<close>), but the
  code creates the file at the final path and streams the response into it. The run
  below is the evidence: the stream breaks after three bytes, the command ends with
  the copy error, and the three unverified bytes stay at the final path.
\<close>

theorem partial_download_at_final_path:
  "fst (DownloadKubectl Elf_only ''1.18.0'' (host ''Linux'' ''x86_64'' (serve release_url broken_response)))
     = Inl CopyError
   \<and> fs (snd (DownloadKubectl Elf_only ''1.18.0''
        (host ''Linux'' ''x86_64'' (serve release_url broken_response))))
        ''/home/dev/.kubemngr/kubectl-1.18.0''
     = Some \<lparr>content = [CHR 0x7F, CHR ''E'', CHR ''L''], mode = 420\<rparr>"
  by (simp add: concrete_defs)


subsection \<open>C2: the order of the steps\<close>

text \<open>
  C2, as amended: every install attempt performs its steps in the order existence
  check, platform detection, download, verification, finalization. A run that stops
  early has performed an initial part of this order, and a run that succeeds has
  performed all five steps.
\<close>

theorem steps_in_code_order:
  "in_order code_order (run_events IsArchive version w)
   \<and> (fst (DownloadKubectl IsArchive version w) = Inr () \<longrightarrow>
        remdups_adj (phases (run_events IsArchive version w)) = code_order)"
proof (cases rule: DK_cases [where version = version and w = w and I = IsArchive])
  case empty
  then show ?thesis by (simp add: in_order_def run_events_def DK_empty)
next
  case no_home
  then show ?thesis by (simp add: in_order_def run_events_def DK_no_home)
next
  case (installed h f)
  then show ?thesis by (simp add: in_order_def run_events_def DK_installed code_order_def)
next
  case (create_fails h)
  then show ?thesis by (simp add: in_order_def run_events_def DK_create_fails code_order_def)
next
  case (unsupported h e')
  then show ?thesis
    by (simp add: in_order_def run_events_def DK_unsupported code_order_def phases_append)
next
  case (network h sys arch)
  then show ?thesis
    by (simp add: in_order_def run_events_def DK_network code_order_def phases_append)
next
  case (copy_fails h sys arch resp)
  then show ?thesis
    by (simp add: in_order_def run_events_def DK_copy_fails code_order_def phases_append
        phases_copy_events remdups_adj_replicate_only)
next
  case (rejected h sys arch resp)
  then show ?thesis
    by (simp add: in_order_def run_events_def DK_rejected [where I = IsArchive] code_order_def
        phases_append phases_copy_events remdups_adj_replicate_same)
next
  case (chmod_fails h sys arch resp)
  then show ?thesis
    by (simp add: in_order_def run_events_def DK_chmod_fails [where I = IsArchive] code_order_def
        phases_append phases_copy_events remdups_adj_replicate_same)
next
  case (rename_fails h sys arch resp)
  then show ?thesis
    by (simp add: in_order_def run_events_def DK_rename_fails [where I = IsArchive] code_order_def
        phases_append phases_copy_events remdups_adj_replicate_same)
next
  case (success h sys arch resp)
  then show ?thesis
    by (simp add: in_order_def run_events_def DK_success [where I = IsArchive] code_order_def
        phases_append phases_copy_events remdups_adj_replicate_same)
qed

theorem steps_in_code_order_witness:
  "remdups_adj (phases (run_events Elf_only ''1.18.0''
      (host ''Linux'' ''x86_64'' (serve release_url elf_response))))
     = [Checking, Detecting, Downloading, Verifying, Finalizing]"
proof -
  have run: "fst (DownloadKubectl Elf_only ''1.18.0''
      (host ''Linux'' ''x86_64'' (serve release_url elf_response))) = Inr ()"
    by (simp add: concrete_defs)
  show ?thesis
    using run steps_in_code_order [of Elf_only "''1.18.0''"
        "host ''Linux'' ''x86_64'' (serve release_url elf_response)"]
    by (simp add: code_order_def)
qed

text \<open>
  C2 as stated puts platform detection before the existence check. On a Windows
  machine where version 1.18.0 is present the command looks the file up, ends with
  \<open>AlreadyInstalled\<close> and never asks for the platform.
\<close>

theorem steps_in_spec_order_counterexample:
  "\<not> in_order spec_order (run_events Elf_only ''1.18.0'' (installed_host ''Windows''))
   \<and> fst (DownloadKubectl Elf_only ''1.18.0'' (installed_host ''Windows''))
       = Inl (AlreadyInstalled ''1.18.0'')
   \<and> run_events Elf_only ''1.18.0'' (installed_host ''Windows'')
       = [UserHomeDir, Stat ''/home/dev/.kubemngr/kubectl-1.18.0'']"
  by (simp add: in_order_def spec_order_def run_events_def concrete_defs)


subsection \<open>C3: a version that is already installed\<close>

text \<open>
  C3: when a file exists at the store path of a (non-empty) version before the call,
  the install fails with \<open>AlreadyInstalled\<close>, requests no URL, and changes nothing in
  the file system: the run consists of the home directory lookup and the stat, and
  the file at the store path is the one that was there.
\<close>

theorem already_installed_rejected:
  assumes "version \<noteq> []"
    and "home_dir w = Some homeDir"
    and "fs w (store_path homeDir version) = Some f"
  shows "fst (DownloadKubectl IsArchive version w) = Inl (AlreadyInstalled version)
    \<and> requested_urls (run_events IsArchive version w) = []
    \<and> run_events IsArchive version w = [UserHomeDir, Stat (store_path homeDir version)]
    \<and> fs (snd (DownloadKubectl IsArchive version w)) = fs w
    \<and> fs (snd (DownloadKubectl IsArchive version w)) (store_path homeDir version) = Some f"
  using assms by (simp add: run_events_def DK_installed [OF assms])

theorem already_installed_rejected_witness:
  "fst (DownloadKubectl Elf_only ''1.18.0'' (installed_host ''Linux''))
     = Inl (AlreadyInstalled ''1.18.0'')
   \<and> requested_urls (run_events Elf_only ''1.18.0'' (installed_host ''Linux'')) = []
   \<and> fs (snd (DownloadKubectl Elf_only ''1.18.0'' (installed_host ''Linux'')))
        ''/home/dev/.kubemngr/kubectl-1.18.0'' = Some \<lparr>content = ''old'', mode = 493\<rparr>"
  using already_installed_rejected [of "''1.18.0''" "installed_host ''Linux''" "''/home/dev''"
      "\<lparr>content = ''old'', mode = 493\<rparr>" Elf_only]
  by (simp add: eval_defs)


subsection \<open>C4: the architecture names\<close>

text \<open>
  C4: on a supported operating system, platform detection maps \<open>x86_64\<close> to
  \<open>amd64\<close>, maps \<open>arm\<close> and \<open>arm64\<close> to themselves, and fails with the
  unsupported-architecture error, carrying the name, for every other machine name.
  (The operating system is compared first: on an unsupported one the run has
  already ended.)
\<close>

theorem arch_mapping:
  assumes "Sysname u = ''Linux'' \<or> Sysname u = ''Darwin''"
  shows "(Machine u = ''x86_64'' \<longrightarrow>
           resolve_platform u = Inr (ToLower (Sysname u), ''amd64''))
    \<and> (Machine u = ''arm'' \<longrightarrow>
           resolve_platform u = Inr (ToLower (Sysname u), ''arm''))
    \<and> (Machine u = ''arm64'' \<longrightarrow>
           resolve_platform u = Inr (ToLower (Sysname u), ''arm64''))
    \<and> (Machine u \<notin> {''x86_64'', ''arm'', ''arm64''} \<longrightarrow>
           resolve_platform u = Inl (UnsupportedArch (Machine u)))"
  using assms by (auto simp add: resolve_platform_def ToLower_names)

theorem arch_mapping_witness:
  "resolve_platform \<lparr>Sysname = ''Linux'', Machine = ''x86_64''\<rparr> = Inr (''linux'', ''amd64'')
   \<and> resolve_platform \<lparr>Sysname = ''Darwin'', Machine = ''arm64''\<rparr> = Inr (''darwin'', ''arm64'')
   \<and> resolve_platform \<lparr>Sysname = ''Linux'', Machine = ''arm''\<rparr> = Inr (''linux'', ''arm'')
   \<and> resolve_platform \<lparr>Sysname = ''Linux'', Machine = ''ARM64''\<rparr>
       = Inl (UnsupportedArch ''ARM64'')"
  using arch_mapping [of "\<lparr>Sysname = ''Linux'', Machine = ''x86_64''\<rparr>"]
    arch_mapping [of "\<lparr>Sysname = ''Darwin'', Machine = ''arm64''\<rparr>"]
    arch_mapping [of "\<lparr>Sysname = ''Linux'', Machine = ''arm''\<rparr>"]
    arch_mapping [of "\<lparr>Sysname = ''Linux'', Machine = ''ARM64''\<rparr>"]
  by (simp add: ToLower_names)

subsection \<open>C5: the operating system names\<close>

text \<open>
  C5, as amended: platform detection succeeds only when the system name is exactly
  \<open>Linux\<close> or \<open>Darwin\<close>, and then yields the name in lower case. For every other
  system name detection fails with the unsupported-OS error carrying the name, no URL
  is requested and the install does not succeed, whatever the rest of the world is;
  and an install that reaches the detection (a non-empty version, a home directory,
  no file at the store path, a destination file that can be created) ends with that
  error.
\<close>

theorem unsupported_os_rejected:
  assumes "Sysname (host_uname w) \<noteq> ''Linux''" and "Sysname (host_uname w) \<noteq> ''Darwin''"
  shows "resolve_platform (host_uname w) = Inl (UnsupportedOS (Sysname (host_uname w)))
    \<and> requested_urls (run_events IsArchive version w) = []
    \<and> fst (DownloadKubectl IsArchive version w) \<noteq> Inr ()
    \<and> (version \<noteq> [] \<and> home_dir w = Some homeDir \<and> fs w (store_path homeDir version) = None
          \<and> SysCreate \<notin> faults w \<longrightarrow>
        fst (DownloadKubectl IsArchive version w) = Inl (UnsupportedOS (Sysname (host_uname w))))
    \<and> (\<forall>u sys arch. resolve_platform u = Inr (sys, arch) \<longrightarrow>
          (Sysname u = ''Linux'' \<and> sys = ''linux'') \<or> (Sysname u = ''Darwin'' \<and> sys = ''darwin''))"
proof -
  have os: "resolve_platform (host_uname w) = Inl (UnsupportedOS (Sysname (host_uname w)))"
    using assms by (simp add: resolve_platform_def)
  have reach: "fst (DownloadKubectl IsArchive version w) = Inl (UnsupportedOS (Sysname (host_uname w)))"
    if "version \<noteq> []" "home_dir w = Some homeDir" "fs w (store_path homeDir version) = None"
      "SysCreate \<notin> faults w"
    using DK_unsupported [OF that os] by simp
  have only: "(Sysname u = ''Linux'' \<and> sys = ''linux'') \<or> (Sysname u = ''Darwin'' \<and> sys = ''darwin'')"
    if "resolve_platform u = Inr (sys, arch)" for u sys arch
    using that by (auto simp add: resolve_platform_def ToLower_names split: if_splits)
  show ?thesis
    using os no_request_without_platform [OF os] reach only by blast
qed

theorem unsupported_os_rejected_witness:
  "fst (DownloadKubectl Elf_only ''1.18.0'' (host ''Windows'' ''x86_64'' (serve release_url elf_response)))
     = Inl (UnsupportedOS ''Windows'')
   \<and> requested_urls (run_events Elf_only ''1.18.0''
        (host ''Windows'' ''x86_64'' (serve release_url elf_response))) = []
   \<and> resolve_platform \<lparr>Sysname = ''linux'', Machine = ''x86_64''\<rparr> = Inl (UnsupportedOS ''linux'')
   \<and> resolve_platform \<lparr>Sysname = ''Darwin'', Machine = ''arm64''\<rparr> = Inr (''darwin'', ''arm64'')"
proof -
  have u: "host_uname (host ''Windows'' ''x86_64'' (serve release_url elf_response))
      = \<lparr>Sysname = ''Windows'', Machine = ''x86_64''\<rparr>"
    by (simp add: host_uname_def getOSInfo_def eval_defs)
  show ?thesis
    using unsupported_os_rejected [of "host ''Windows'' ''x86_64'' (serve release_url elf_response)"
        Elf_only "''1.18.0''" "''/home/dev''"]
    by (simp add: u) (simp add: eval_defs)
qed


text \<open>
  C5 as stated has every install on another operating system end with the
  unsupported-platform error. On a Windows machine the first attempt to install
  version 1.18.0 ends with that error and leaves the empty file behind; the second
  attempt finds the file and ends with \<open>AlreadyInstalled\<close>, before the operating
  system is looked at.
\<close>

theorem unsupported_os_second_attempt_counterexample:
  "fst (DownloadKubectl Elf_only ''1.18.0'' (host ''Windows'' ''x86_64'' (serve release_url elf_response)))
     = Inl (UnsupportedOS ''Windows'')
   \<and> Sysname (host_uname (snd (DownloadKubectl Elf_only ''1.18.0''
        (host ''Windows'' ''x86_64'' (serve release_url elf_response))))) = ''Windows''
   \<and> fst (DownloadKubectl Elf_only ''1.18.0''
        (snd (DownloadKubectl Elf_only ''1.18.0''
          (host ''Windows'' ''x86_64'' (serve release_url elf_response)))))
     = Inl (AlreadyInstalled ''1.18.0'')"
  by (simp add: concrete_defs host_uname_def)

subsection \<open>C6: the URL\<close>

text \<open>
  C6: for a version and a platform that pass validation, exactly one URL is
  requested, and it is the base URL followed by the version, \<open>bin\<close>, the operating
  system, the architecture and \<open>kubectl\<close>; for version 1.18.0 on linux/amd64 it is
  the URL written out below.
\<close>

theorem requested_url_templated:
  assumes "version \<noteq> []"
    and "home_dir w = Some homeDir"
    and "fs w (store_path homeDir version) = None"
    and "SysCreate \<notin> faults w"
    and "resolve_platform (host_uname w) = Inr (sys, arch)"
  shows "requested_urls (run_events IsArchive version w) =
      [''https://storage.googleapis.com/kubernetes-release/release/'' @ version
         @ ''/bin/'' @ sys @ ''/'' @ arch @ ''/kubectl'']
    \<and> (version = ''1.18.0'' \<and> sys = ''linux'' \<and> arch = ''amd64'' \<longrightarrow>
         requested_urls (run_events IsArchive version w) =
           [''https://storage.googleapis.com/kubernetes-release/release/1.18.0/bin/linux/amd64/kubectl''])"
proof -
  from run_events_reaching_download [OF assms, of IsArchive]
  have "requested_urls (run_events IsArchive version w) = [kubectl_url version sys arch]"
    by (auto simp add: requested_urls_append)
  then show ?thesis by (auto simp add: kubectl_url_def)
qed

theorem requested_url_templated_witness:
  "requested_urls (run_events Elf_only ''1.18.0'' (host ''Linux'' ''x86_64'' (serve release_url html_response)))
     = [''https://storage.googleapis.com/kubernetes-release/release/1.18.0/bin/linux/amd64/kubectl'']"
  using requested_url_templated [of "''1.18.0''" "host ''Linux'' ''x86_64'' (serve release_url html_response)"
      "''/home/dev''" "''linux''" "''amd64''" Elf_only]
  by (simp add: host_uname_host) (simp add: eval_defs)


subsection \<open>C7: a download that is rejected\<close>

text \<open>
  C7, as amended: when the download completes and the verifier rejects its bytes, the
  install ends with \<open>InvalidBinaryContent\<close>; the failure line is printed first, the
  destination file is removed after it, and the removal is the last thing the run
  does before the process exits with the failure. No file is left at the store path:
  the file system is as it was before the call.
\<close>

theorem rejected_download_removed:
  assumes "version \<noteq> []"
    and "home_dir w = Some homeDir"
    and "fs w (store_path homeDir version) = None"
    and "SysCreate \<notin> faults w"
    and "resolve_platform (host_uname w) = Inr (sys, arch)"
    and "http w (kubectl_url version sys arch) = Some resp"
    and "\<not> read_err resp"
    and "\<not> IsArchive (concat (body resp))"
  shows "fst (DownloadKubectl IsArchive version w) = Inl InvalidBinaryContent
    \<and> fs (snd (DownloadKubectl IsArchive version w)) (store_path homeDir version) = None
    \<and> fs (snd (DownloadKubectl IsArchive version w)) = fs w
    \<and> precedes (Print failure_line) (Remove (store_path homeDir version))
          (run_events IsArchive version w)
    \<and> last (run_events IsArchive version w) = Remove (store_path homeDir version)"
proof -
  have order: "precedes (Print failure_line) (Remove (store_path homeDir version))
      (run_events IsArchive version w)"
    unfolding run_events_rejected [where I = IsArchive, OF assms]
    by (subst precedes_append)
       (simp_all add: Remove_notin_copy_events Print_notin_copy_events
          failure_line_notin_uname_events)
  show ?thesis
    using assms(3) order
    by (simp add: run_events_def DK_rejected [where I = IsArchive, OF assms] fun_upd_idem_iff)
qed

theorem rejected_download_removed_witness:
  "fst (DownloadKubectl Elf_only ''1.18.0'' (host ''Linux'' ''x86_64'' (serve release_url html_response)))
     = Inl InvalidBinaryContent
   \<and> fs (snd (DownloadKubectl Elf_only ''1.18.0''
        (host ''Linux'' ''x86_64'' (serve release_url html_response))))
        ''/home/dev/.kubemngr/kubectl-1.18.0'' = None
   \<and> precedes (Print failure_line) (Remove ''/home/dev/.kubemngr/kubectl-1.18.0'')
        (run_events Elf_only ''1.18.0'' (host ''Linux'' ''x86_64'' (serve release_url html_response)))"
  using rejected_download_removed [of "''1.18.0''"
      "host ''Linux'' ''x86_64'' (serve release_url html_response)"
      "''/home/dev''" "''linux''" "''amd64''" html_response Elf_only]
  by (simp add: host_uname_host) (simp add: eval_defs)

text \<open>
  C7 as stated has the file deleted before the failure is reported. On a Linux
  machine that is served an HTML page for version 1.18.0, the removal does not come
  before the failure line: the run ends with the blank line, the read of the file,
  the failure line and then the removal.
\<close>

theorem removed_before_reported_counterexample:
  "\<not> precedes (Remove ''/home/dev/.kubemngr/kubectl-1.18.0'') (Print failure_line)
        (run_events Elf_only ''1.18.0'' (host ''Linux'' ''x86_64'' (serve release_url html_response)))
   \<and> drop 9 (run_events Elf_only ''1.18.0''
        (host ''Linux'' ''x86_64'' (serve release_url html_response)))
       = [Print [], ReadFile ''/home/dev/.kubemngr/kubectl-1.18.0'', Print failure_line,
          Remove ''/home/dev/.kubemngr/kubectl-1.18.0'']"
  by (simp add: run_events_def concrete_defs failure_line_def)

subsection \<open>C8: a download that is accepted\<close>

text \<open>
  C8: when the download completes, the verifier accepts its bytes and the file system
  refuses neither the chmod nor the rename, the install succeeds; the file at the
  store path of the version holds the downloaded bytes, and its mode has the execute
  bit of the owner (octal 100), of the group (octal 010) and of the others (octal 001).
\<close>

theorem accepted_download_installed:
  assumes "version \<noteq> []"
    and "home_dir w = Some homeDir"
    and "fs w (store_path homeDir version) = None"
    and "SysCreate \<notin> faults w"
    and "resolve_platform (host_uname w) = Inr (sys, arch)"
    and "http w (kubectl_url version sys arch) = Some resp"
    and "\<not> read_err resp"
    and "IsArchive (concat (body resp))"
    and "SysChmod \<notin> faults w"
    and "SysRename \<notin> faults w"
  shows "fst (DownloadKubectl IsArchive version w) = Inr ()
    \<and> (\<exists>f. fs (snd (DownloadKubectl IsArchive version w)) (store_path homeDir version) = Some f
          \<and> content f = concat (body resp)
          \<and> mode f AND 64 = 64 \<and> mode f AND 8 = 8 \<and> mode f AND 1 = 1)"
  by (simp add: DK_success [where I = IsArchive, OF assms])

theorem accepted_download_installed_witness:
  "fst (DownloadKubectl Elf_only ''1.18.0'' (host ''Linux'' ''x86_64'' (serve release_url elf_response)))
     = Inr ()
   \<and> (\<exists>f. fs (snd (DownloadKubectl Elf_only ''1.18.0''
          (host ''Linux'' ''x86_64'' (serve release_url elf_response))))
          ''/home/dev/.kubemngr/kubectl-1.18.0'' = Some f
        \<and> content f = [CHR 0x7F, CHR ''E'', CHR ''L'', CHR ''F'', CHR ''.'', CHR ''.'', CHR ''.'']
        \<and> mode f AND 64 = 64 \<and> mode f AND 8 = 8 \<and> mode f AND 1 = 1)"
  using accepted_download_installed [of "''1.18.0''"
      "host ''Linux'' ''x86_64'' (serve release_url elf_response)"
      "''/home/dev''" "''linux''" "''amd64''" elf_response Elf_only]
  by (simp add: host_uname_host) (simp add: eval_defs)


subsection \<open>C9: the progress counter\<close>

text \<open>
  C9: after the writes of a sequence of chunks through a fresh counter, whose sizes
  add up to less than \<open>2 ^ 64\<close> (the counter is a \<open>uint64\<close>), the total is the sum of
  the sizes; the writes add one progress report each to the trace and nothing else;
  the report after the write number \<open>i\<close> is the sum of the sizes up to it; and the
  reported values, starting from zero, never decrease.
\<close>

theorem progress_additive:
  assumes "sum_list (map length ps) < 2 ^ 64"
  shows "unat (Total (fst (Writes \<lparr>Total = 0\<rparr> ps w))) = sum_list (map length ps)
    \<and> drop (length (trace w)) (trace (snd (Writes \<lparr>Total = 0\<rparr> ps w)))
        = map Progress (reported (drop (length (trace w)) (trace (snd (Writes \<lparr>Total = 0\<rparr> ps w)))))
    \<and> length (reported (drop (length (trace w)) (trace (snd (Writes \<lparr>Total = 0\<rparr> ps w))))) = length ps
    \<and> (\<forall>i < length ps.
          unat (reported (drop (length (trace w)) (trace (snd (Writes \<lparr>Total = 0\<rparr> ps w)))) ! i)
            = sum_list (map length (take (Suc i) ps)))
    \<and> sorted (0 # reported (drop (length (trace w)) (trace (snd (Writes \<lparr>Total = 0\<rparr> ps w)))))"
proof -
  have bound: "sum_list (map length (take k ps)) < 2 ^ 64" for k
    using sum_take_le [of k ps] assms by simp
  have un: "unat (of_nat (sum_list (map length (take k ps))) :: 64 word)
      = sum_list (map length (take k ps))" for k
    using bound [of k] by (simp add: unat_of_nat)
  have ev: "drop (length (trace w)) (trace (snd (Writes \<lparr>Total = 0\<rparr> ps w)))
      = map Progress (running_totals 0 ps)"
    by (simp add: Writes_eq)
  have nth: "unat (running_totals 0 ps ! i) = sum_list (map length (take (Suc i) ps))"
    if "i < length ps" for i
    using that un [of "Suc i"] by (simp add: running_totals_nth)
  have "sorted (running_totals 0 ps)"
    unfolding sorted_iff_nth_mono
  proof (intro allI impI)
    fix i j
    assume "i \<le> j" "j < length (running_totals 0 ps)"
    then have "unat (running_totals 0 ps ! i) \<le> unat (running_totals 0 ps ! j)"
      using nth [of i] nth [of j] sum_take_mono [of "Suc i" "Suc j" ps] by simp
    then show "running_totals 0 ps ! i \<le> running_totals 0 ps ! j"
      by (simp add: word_le_nat_alt)
  qed
  then have srt: "sorted (0 # running_totals 0 ps)" by simp
  have tot: "unat (Total (fst (Writes \<lparr>Total = 0\<rparr> ps w))) = sum_list (map length ps)"
    using un [of "length ps"] by (simp add: Writes_eq)
  show ?thesis
    using tot nth srt by (simp add: ev)
qed

theorem progress_additive_witness:
  "unat (Total (fst (Writes \<lparr>Total = 0\<rparr> [''abc'', ''de'', ''f'']
      (host ''Linux'' ''x86_64'' (serve release_url elf_response))))) = 6
   \<and> reported (trace (snd (Writes \<lparr>Total = 0\<rparr> [''abc'', ''de'', ''f'']
      (host ''Linux'' ''x86_64'' (serve release_url elf_response))))) = [3, 5, 6]"
  using progress_additive [of "[''abc'', ''de'', ''f'']"
      "host ''Linux'' ''x86_64'' (serve release_url elf_response)"]
  by (simp add: Write_def PrintProgress_def log_event_def host_def)


subsection \<open>C10: the file left behind on an unsupported platform\<close>

text \<open>
  C10: when the install fails because the operating system or the architecture is
  not supported, the version was not installed before; the run created the file at
  the final store path before it asked for the platform, the file is empty, and the
  run does not remove it.
\<close>

theorem unsupported_platform_leaves_empty_file:
  assumes "fst (DownloadKubectl IsArchive version w) = Inl e"
    and "e = UnsupportedOS s \<or> e = UnsupportedArch s"
    and "home_dir w = Some homeDir"
  shows "fs w (store_path homeDir version) = None
    \<and> fs (snd (DownloadKubectl IsArchive version w)) (store_path homeDir version)
        = Some \<lparr>content = [], mode = 438 AND NOT (umask w)\<rparr>
    \<and> take 4 (run_events IsArchive version w)
        = [UserHomeDir, Stat (store_path homeDir version), Create (store_path homeDir version), Uname]
    \<and> Remove (store_path homeDir version) \<notin> set (run_events IsArchive version w)"
proof (cases rule: DK_cases [where version = version and w = w and I = IsArchive])
  case empty
  with assms show ?thesis by (auto simp add: DK_empty)
next
  case no_home
  with assms show ?thesis by simp
next
  case (installed h f)
  with assms show ?thesis by (auto simp add: DK_installed)
next
  case (create_fails h)
  with assms show ?thesis by (auto simp add: DK_create_fails)
next
  case (unsupported h e')
  obtain rest where "uname_events w = Uname # rest"
    using hd_uname_events [of w] by blast
  with unsupported assms show ?thesis
    using Remove_notin_uname_events [of "store_path homeDir version" w]
    by (simp add: run_events_def DK_unsupported)
next
  case (network h sys arch)
  with assms show ?thesis by (auto simp add: DK_network)
next
  case (copy_fails h sys arch resp)
  with assms show ?thesis by (auto simp add: DK_copy_fails)
next
  case (rejected h sys arch resp)
  with assms show ?thesis by (auto simp add: DK_rejected [where I = IsArchive])
next
  case (chmod_fails h sys arch resp)
  with assms show ?thesis by (auto simp add: DK_chmod_fails [where I = IsArchive])
next
  case (rename_fails h sys arch resp)
  with assms show ?thesis by (auto simp add: DK_rename_fails [where I = IsArchive])
next
  case (success h sys arch resp)
  with assms show ?thesis by (auto simp add: DK_success [where I = IsArchive])
qed

theorem unsupported_platform_leaves_empty_file_witness:
  "fst (DownloadKubectl Elf_only ''1.18.0'' (host ''Windows'' ''x86_64'' (serve release_url elf_response)))
     = Inl (UnsupportedOS ''Windows'')
   \<and> fs (snd (DownloadKubectl Elf_only ''1.18.0''
        (host ''Windows'' ''x86_64'' (serve release_url elf_response))))
        ''/home/dev/.kubemngr/kubectl-1.18.0'' = Some \<lparr>content = [], mode = 420\<rparr>"
proof -
  have run: "fst (DownloadKubectl Elf_only ''1.18.0''
      (host ''Windows'' ''x86_64'' (serve release_url elf_response))) = Inl (UnsupportedOS ''Windows'')"
    by (simp add: concrete_defs)
  show ?thesis
    using run unsupported_platform_leaves_empty_file [OF run, of "''Windows''" "''/home/dev''"]
    by (simp add: eval_defs)
qed

end
